theory Spec2Isabelle
  imports
    Complex_Main
    "HOL-Library.Word"
    "HOL-Library.Char_ord"
    "HOL-Library.List_Lexorder"
begin

section \<open>The User REST API over a document collection\<close>

text \<open>
  The repository is an Express router (\<^verbatim>\<open>Routes/User.routes.js\<close>) whose fourteen
  handlers each call the Mongoose model \<^verbatim>\<open>User\<close> (schema in \<^verbatim>\<open>models/User.js\<close>) and map
  the outcome to a status code and a JSON body. The handlers are embedded one by one, in
  the order of the source. The collection is passed explicitly: every handler takes the
  stored documents and returns the response together with the documents afterwards.

  What the storage driver decides by itself is an input of the handler:
  \<^item> \<open>fault\<close>: \<open>Some m\<close> when the call to the database fails for a reason of the
    infrastructure (connection lost, time-out) with message \<open>m\<close>, \<open>None\<close> when the
    database answers;
  \<^item> \<open>newid\<close>: the identifier the driver generates for a new document.

  A request body is typed by the schema: an object carries an optional \<open>name\<close> (text),
  an optional \<open>age\<close> (number) and an optional \<open>favoriteFoods\<close> (list of texts); a JSON
  value of another type in one of these fields, which the driver would cast or reject,
  is outside this model. Numbers are real numbers: the handlers only compare them with
  zero and store them.
\<close>

subsection \<open>Identifiers\<close>

text \<open>
  An \<^verbatim>\<open>ObjectId\<close> is a value of 12 bytes. The driver casts a path parameter to it when the
  parameter is a string of 24 hexadecimal digits (either case) or a string of 12
  characters (taken as the 12 bytes); every other string raises a \<^verbatim>\<open>CastError\<close> of kind
  \<^verbatim>\<open>ObjectId\<close>. An identifier is written in a response as its 24 lower-case hexadecimal
  digits.
\<close>

type_synonym objectid = "96 word"

definition hex_value :: "char \<Rightarrow> nat option" where
  "hex_value c =
     (let n = (of_char c :: nat) in
      if 48 \<le> n \<and> n \<le> 57 then Some (n - 48)
      else if 97 \<le> n \<and> n \<le> 102 then Some (n - 87)
      else if 65 \<le> n \<and> n \<le> 70 then Some (n - 55)
      else None)"

definition hex_digit :: "nat \<Rightarrow> char" where
  "hex_digit d = (if d < 10 then char_of (48 + d) else char_of (87 + d))"

fun parse_hex :: "nat \<Rightarrow> string \<Rightarrow> nat option" where
  "parse_hex acc [] = Some acc"
| "parse_hex acc (c # cs) =
     (case hex_value c of None \<Rightarrow> None | Some d \<Rightarrow> parse_hex (16 * acc + d) cs)"

fun bytes_value :: "nat \<Rightarrow> string \<Rightarrow> nat" where
  "bytes_value acc [] = acc"
| "bytes_value acc (c # cs) = bytes_value (256 * acc + of_char c) cs"

definition castObjectId :: "string \<Rightarrow> objectid option" where
  "castObjectId s =
     (if length s = 12 then Some (word_of_nat (bytes_value 0 s))
      else if length s = 24 then map_option word_of_nat (parse_hex 0 s)
      else None)"

fun hex_digits :: "nat \<Rightarrow> nat \<Rightarrow> string" where
  "hex_digits 0 n = []"
| "hex_digits (Suc k) n = hex_digits k (n div 16) @ [hex_digit (n mod 16)]"

definition toHexString :: "objectid \<Rightarrow> string" where
  "toHexString oid = hex_digits 24 (unat oid)"

subsection \<open>JSON values, responses and errors\<close>

datatype json =
    JNull
  | JBool bool
  | JNum real
  | JStr string
  | JArr "json list"
  | JObj "(string \<times> json) list"

record response =
  status :: nat
  body :: json

text \<open>\<^verbatim>\<open>res.status(s).json(b)\<close>\<close>

definition json_response :: "nat \<Rightarrow> json \<Rightarrow> response" where
  "json_response s b = \<lparr>status = s, body = b\<rparr>"

text \<open>The object \<^verbatim>\<open>{ message: m }\<close>.\<close>

definition message :: "string \<Rightarrow> json" where
  "message m = JObj [(''message'', JStr m)]"

text \<open>
  A JavaScript error as the handlers read it: its \<^verbatim>\<open>name\<close>, its \<^verbatim>\<open>kind\<close> (only a
  \<^verbatim>\<open>CastError\<close> has one) and its \<^verbatim>\<open>message\<close>.
\<close>

record error =
  error_name :: string
  error_kind :: "string option"
  error_message :: string

definition CastError_ObjectId :: "string \<Rightarrow> error" where
  \<open>CastError_ObjectId v =
     \<lparr>error_name = ''CastError'', error_kind = Some ''ObjectId'',
      error_message = ''Cast to ObjectId failed for value "'' @ v @ ''" at path "_id" for model "User"''\<rparr>\<close>

definition ValidationError :: "string \<Rightarrow> error" where
  "ValidationError m = \<lparr>error_name = ''ValidationError'', error_kind = None, error_message = m\<rparr>"

definition DriverError :: "string \<Rightarrow> error" where
  "DriverError m = \<lparr>error_name = ''MongoNetworkError'', error_kind = None, error_message = m\<rparr>"

definition DuplicateKeyError :: error where
  "DuplicateKeyError =
     \<lparr>error_name = ''MongoServerError'', error_kind = None,
      error_message = ''E11000 duplicate key error''\<rparr>"

definition DocumentNotFoundError :: error where
  "DocumentNotFoundError =
     \<lparr>error_name = ''DocumentNotFoundError'', error_kind = None,
      error_message = ''No document found for query''\<rparr>"

subsection \<open>The User schema\<close>

text \<open>
  \<^verbatim>\<open>models/User.js\<close>: \<^verbatim>\<open>name: { type: String, required: true }\<close>,
  \<^verbatim>\<open>age: { type: Number, min: 0 }\<close>, \<^verbatim>\<open>favoriteFoods: [String]\<close>. A stored document
  also has its \<^verbatim>\<open>_id\<close> and the version key \<^verbatim>\<open>__v\<close> that the driver maintains.
\<close>

record user =
  doc_id :: objectid
  name :: string
  age :: "real option"
  favoriteFoods :: "string list"
  version :: nat

type_synonym collection = "user list"

text \<open>The fields of a request body that is an object.\<close>

record user_fields =
  field_name :: "string option"
  field_age :: "real option"
  field_favoriteFoods :: "string list option"

text \<open>\<^verbatim>\<open>express.json()\<close> hands the handler an object or an array.\<close>

datatype request_body = Object user_fields | Array "user_fields list"

text \<open>A document as \<^verbatim>\<open>res.json\<close> writes it: an absent \<^verbatim>\<open>age\<close> is left out.\<close>

definition toObject :: "user \<Rightarrow> (string \<times> json) list" where
  "toObject u =
     [(''_id'', JStr (toHexString (doc_id u))), (''name'', JStr (name u))]
     @ (case age u of None \<Rightarrow> [] | Some a \<Rightarrow> [(''age'', JNum a)])
     @ [(''favoriteFoods'', JArr (map JStr (favoriteFoods u))),
        (''__v'', JNum (real (version u)))]"

definition toJSON :: "user \<Rightarrow> json" where
  "toJSON u = JObj (toObject u)"

text \<open>
  The validators of the schema, each returning the messages of its failures. \<open>required\<close>
  fails on an absent and on an empty string; \<open>min: 0\<close> fails on a number below zero and
  passes an absent one. The messages follow the driver's templates, with the offending
  number left as the template's \<^verbatim>\<open>{VALUE}\<close>.
\<close>

definition validate_name :: "string option \<Rightarrow> string list" where
  "validate_name n =
     (case n of
        None \<Rightarrow> [''name: Path `name` is required.'']
      | Some s \<Rightarrow> if s = [] then [''name: Path `name` is required.''] else [])"

definition validate_age :: "real option \<Rightarrow> string list" where
  "validate_age a =
     (case a of
        None \<Rightarrow> []
      | Some v \<Rightarrow>
          if v < 0 then [''age: Path `age` ({VALUE}) is less than minimum allowed value (0).'']
          else [])"

fun join_messages :: "string list \<Rightarrow> string" where
  "join_messages [] = []"
| "join_messages [m] = m"
| "join_messages (m # ms) = m @ '', '' @ join_messages ms"

text \<open>Validation of a whole new document, as \<^verbatim>\<open>save()\<close> runs it before writing.\<close>

definition validate_document :: "user_fields \<Rightarrow> error option" where
  "validate_document f =
     (case validate_name (field_name f) @ validate_age (field_age f) of
        [] \<Rightarrow> None
      | m # ms \<Rightarrow> Some (ValidationError (''User validation failed: '' @ join_messages (m # ms))))"

text \<open>
  Validation of an update (\<^verbatim>\<open>runValidators: true\<close>): only the fields the update sets
  are checked.
\<close>

definition validate_update :: "user_fields \<Rightarrow> error option" where
  "validate_update f =
     (case (case field_name f of None \<Rightarrow> [] | Some s \<Rightarrow> validate_name (Some s))
           @ validate_age (field_age f) of
        [] \<Rightarrow> None
      | m # ms \<Rightarrow> Some (ValidationError (''Validation failed: '' @ join_messages (m # ms))))"

text \<open>
  \<^verbatim>\<open>new User(fields)\<close> with the generated identifier: \<^verbatim>\<open>favoriteFoods\<close> defaults to the
  empty list, the version key starts at 0. It is only stored after
  \<open>validate_document\<close> has passed, so the name is present.
\<close>

definition new_User :: "objectid \<Rightarrow> user_fields \<Rightarrow> user" where
  "new_User newid f =
     \<lparr>doc_id = newid,
      name = (case field_name f of None \<Rightarrow> [] | Some n \<Rightarrow> n),
      age = field_age f,
      favoriteFoods = (case field_favoriteFoods f of None \<Rightarrow> [] | Some fs \<Rightarrow> fs),
      version = 0\<rparr>"

subsection \<open>The driver: queries on the collection\<close>

text \<open>
  The collection is the list of its documents in natural order (a new document goes to
  the end). A query condition is one of the three the handlers use.
\<close>

datatype conditions =
    Everything
  | Name_is string
  | FavoriteFoods_has string

fun matches :: "conditions \<Rightarrow> user \<Rightarrow> bool" where
  "matches Everything u = True"
| "matches (Name_is n) u = (name u = n)"
| "matches (FavoriteFoods_has x) u = (x \<in> set (favoriteFoods u))"

fun update_first :: "(user \<Rightarrow> bool) \<Rightarrow> (user \<Rightarrow> user) \<Rightarrow> collection \<Rightarrow> collection" where
  "update_first p g [] = []"
| "update_first p g (u # us) = (if p u then g u # us else u # update_first p g us)"

fun remove_first :: "(user \<Rightarrow> bool) \<Rightarrow> collection \<Rightarrow> collection" where
  "remove_first p [] = []"
| "remove_first p (u # us) = (if p u then us else u # remove_first p us)"

text \<open>\<^verbatim>\<open>User.find(conditions)\<close>: every matching document.\<close>

definition User_find ::
  "string option \<Rightarrow> conditions \<Rightarrow> collection \<Rightarrow> (error + user list) \<times> collection" where
  "User_find fault c db =
     (case fault of
        Some m \<Rightarrow> (Inl (DriverError m), db)
      | None \<Rightarrow> (Inr (filter (matches c) db), db))"

text \<open>\<^verbatim>\<open>User.findOne(conditions)\<close>: the first matching document, or \<^verbatim>\<open>null\<close>.\<close>

definition User_findOne ::
  "string option \<Rightarrow> conditions \<Rightarrow> collection \<Rightarrow> (error + user option) \<times> collection" where
  "User_findOne fault c db =
     (case fault of
        Some m \<Rightarrow> (Inl (DriverError m), db)
      | None \<Rightarrow> (Inr (find (matches c) db), db))"

text \<open>
  \<^verbatim>\<open>User.findById(id)\<close>: the identifier is cast before the database is asked, so a
  malformed one raises the \<^verbatim>\<open>CastError\<close> whatever the state of the connection.
\<close>

definition User_findById ::
  "string option \<Rightarrow> string \<Rightarrow> collection \<Rightarrow> (error + user option) \<times> collection" where
  "User_findById fault ident db =
     (case castObjectId ident of
        None \<Rightarrow> (Inl (CastError_ObjectId ident), db)
      | Some oid \<Rightarrow>
          (case fault of
             Some m \<Rightarrow> (Inl (DriverError m), db)
           | None \<Rightarrow> (Inr (find (\<lambda>u. doc_id u = oid) db), db)))"

text \<open>The \<^verbatim>\<open>$set\<close> of the fields an update object carries.\<close>

definition apply_update :: "user_fields \<Rightarrow> user \<Rightarrow> user" where
  "apply_update f u =
     u\<lparr>name := (case field_name f of None \<Rightarrow> name u | Some n \<Rightarrow> n),
       age := (case field_age f of None \<Rightarrow> age u | Some a \<Rightarrow> Some a),
       favoriteFoods := (case field_favoriteFoods f of None \<Rightarrow> favoriteFoods u | Some fs \<Rightarrow> fs)\<rparr>"

text \<open>The options \<^verbatim>\<open>{ new, runValidators }\<close> of an update.\<close>

record update_options =
  opt_new :: bool
  opt_runValidators :: bool

text \<open>
  \<^verbatim>\<open>User.findByIdAndUpdate(id, update, options)\<close>: the identifier is cast, then the
  update is validated when \<^verbatim>\<open>runValidators\<close> is set, then the first document with the
  identifier is updated; the result is the document after the update when \<^verbatim>\<open>new\<close> is
  set, before it otherwise, or \<^verbatim>\<open>null\<close> when there is none.
\<close>

definition User_findByIdAndUpdate ::
  "string option \<Rightarrow> string \<Rightarrow> user_fields \<Rightarrow> update_options \<Rightarrow> collection
     \<Rightarrow> (error + user option) \<times> collection" where
  "User_findByIdAndUpdate fault ident upd opts db =
     (case castObjectId ident of
        None \<Rightarrow> (Inl (CastError_ObjectId ident), db)
      | Some oid \<Rightarrow>
          (case (if opt_runValidators opts then validate_update upd else None) of
             Some e \<Rightarrow> (Inl e, db)
           | None \<Rightarrow>
               (case fault of
                  Some m \<Rightarrow> (Inl (DriverError m), db)
                | None \<Rightarrow>
                    (case find (\<lambda>u. doc_id u = oid) db of
                       None \<Rightarrow> (Inr None, db)
                     | Some u \<Rightarrow>
                         (Inr (Some (if opt_new opts then apply_update upd u else u)),
                          update_first (\<lambda>u. doc_id u = oid) (apply_update upd) db)))))"

text \<open>\<^verbatim>\<open>User.findOneAndUpdate(conditions, update, options)\<close>, on the first match.\<close>

definition User_findOneAndUpdate ::
  "string option \<Rightarrow> conditions \<Rightarrow> user_fields \<Rightarrow> update_options \<Rightarrow> collection
     \<Rightarrow> (error + user option) \<times> collection" where
  "User_findOneAndUpdate fault c upd opts db =
     (case (if opt_runValidators opts then validate_update upd else None) of
        Some e \<Rightarrow> (Inl e, db)
      | None \<Rightarrow>
          (case fault of
             Some m \<Rightarrow> (Inl (DriverError m), db)
           | None \<Rightarrow>
               (case find (matches c) db of
                  None \<Rightarrow> (Inr None, db)
                | Some u \<Rightarrow>
                    (Inr (Some (if opt_new opts then apply_update upd u else u)),
                     update_first (matches c) (apply_update upd) db))))"

text \<open>
  \<^verbatim>\<open>User.findByIdAndDelete(id)\<close>: removes the first document with the identifier and
  returns it, or \<^verbatim>\<open>null\<close> when there is none.
\<close>

definition User_findByIdAndDelete ::
  "string option \<Rightarrow> string \<Rightarrow> collection \<Rightarrow> (error + user option) \<times> collection" where
  "User_findByIdAndDelete fault ident db =
     (case castObjectId ident of
        None \<Rightarrow> (Inl (CastError_ObjectId ident), db)
      | Some oid \<Rightarrow>
          (case fault of
             Some m \<Rightarrow> (Inl (DriverError m), db)
           | None \<Rightarrow>
               (case find (\<lambda>u. doc_id u = oid) db of
                  None \<Rightarrow> (Inr None, db)
                | Some u \<Rightarrow> (Inr (Some u), remove_first (\<lambda>u. doc_id u = oid) db))))"

text \<open>
  \<^verbatim>\<open>User.findByIdAndRemove(id)\<close>: in the releases of the driver that have it, the same
  operation under its older name.
\<close>

definition User_findByIdAndRemove ::
  "string option \<Rightarrow> string \<Rightarrow> collection \<Rightarrow> (error + user option) \<times> collection" where
  "User_findByIdAndRemove fault ident db = User_findByIdAndDelete fault ident db"

text \<open>
  \<^verbatim>\<open>User.deleteMany(conditions)\<close>: removes every match; the result is the
  \<^verbatim>\<open>deletedCount\<close>.
\<close>

definition User_deleteMany ::
  "string option \<Rightarrow> conditions \<Rightarrow> collection \<Rightarrow> (error + nat) \<times> collection" where
  "User_deleteMany fault c db =
     (case fault of
        Some m \<Rightarrow> (Inl (DriverError m), db)
      | None \<Rightarrow> (Inr (length (filter (matches c) db)), filter (\<lambda>u. \<not> matches c u) db))"

text \<open>
  \<^verbatim>\<open>new User(fields).save()\<close>: validation comes first, then the insert, which the
  database refuses when the identifier is already taken.
\<close>

definition save_new ::
  "string option \<Rightarrow> objectid \<Rightarrow> user_fields \<Rightarrow> collection \<Rightarrow> (error + user) \<times> collection" where
  "save_new fault newid f db =
     (case validate_document f of
        Some e \<Rightarrow> (Inl e, db)
      | None \<Rightarrow>
          (case fault of
             Some m \<Rightarrow> (Inl (DriverError m), db)
           | None \<Rightarrow>
               if newid \<in> set (map doc_id db) then (Inl DuplicateKeyError, db)
               else (Inr (new_User newid f), db @ [new_User newid f])))"

text \<open>
  \<^verbatim>\<open>User.create(array)\<close>: each element is made a document and saved on its own, the
  \<open>i\<close>-th with the identifier \<open>newids i\<close>. The outcomes are collected; with no failure
  the result is the array of the saved documents, otherwise the first error is raised
  (the elements that passed stay inserted).
\<close>

fun save_each ::
  "string option \<Rightarrow> (nat \<Rightarrow> objectid) \<Rightarrow> nat \<Rightarrow> user_fields list \<Rightarrow> collection
     \<Rightarrow> (error + user) list \<times> collection" where
  "save_each fault newids i [] db = ([], db)"
| "save_each fault newids i (f # fs) db =
     (case save_new fault (newids i) f db of
        (r, db') \<Rightarrow>
          (case save_each fault newids (Suc i) fs db' of
             (rs, db'') \<Rightarrow> (r # rs, db'')))"

fun first_error :: "(error + user) list \<Rightarrow> error option" where
  "first_error [] = None"
| "first_error (Inl e # rs) = Some e"
| "first_error (Inr u # rs) = first_error rs"

fun saved_docs :: "(error + user) list \<Rightarrow> user list" where
  "saved_docs [] = []"
| "saved_docs (Inl e # rs) = saved_docs rs"
| "saved_docs (Inr u # rs) = u # saved_docs rs"

definition User_create ::
  "string option \<Rightarrow> (nat \<Rightarrow> objectid) \<Rightarrow> user_fields list \<Rightarrow> collection
     \<Rightarrow> (error + user list) \<times> collection" where
  "User_create fault newids arr db =
     (case save_each fault newids 0 arr db of
        (rs, db') \<Rightarrow>
          (case first_error rs of
             Some e \<Rightarrow> (Inl e, db')
           | None \<Rightarrow> (Inr (saved_docs rs), db')))"

text \<open>
  A document in memory, as \<^verbatim>\<open>findById\<close> returns it: its fields, and the items pushed
  on \<^verbatim>\<open>favoriteFoods\<close> since it was loaded, which \<^verbatim>\<open>save()\<close> will send as a \<^verbatim>\<open>$push\<close>.
\<close>

record document =
  doc :: user
  pushed :: "string list"

definition hydrate :: "user \<Rightarrow> document" where
  "hydrate u = \<lparr>doc = u, pushed = []\<rparr>"

text \<open>\<^verbatim>\<open>person.favoriteFoods.push(x)\<close>\<close>

definition favoriteFoods_push :: "document \<Rightarrow> string \<Rightarrow> document" where
  "favoriteFoods_push d x =
     d\<lparr>doc := (doc d)\<lparr>favoriteFoods := favoriteFoods (doc d) @ [x]\<rparr>,
       pushed := pushed d @ [x]\<rparr>"

text \<open>
  \<^verbatim>\<open>person.save()\<close> on a loaded document. The validators run on the modified paths
  only, here a list of texts, which has none. With nothing pushed nothing is written;
  otherwise the stored document gets the pushed items and its version key is
  incremented, in the database and in memory. A document that is no longer stored
  raises \<^verbatim>\<open>DocumentNotFoundError\<close>.
\<close>

definition document_save ::
  "string option \<Rightarrow> document \<Rightarrow> collection \<Rightarrow> (error + user) \<times> collection" where
  "document_save fault d db =
     (case fault of
        Some m \<Rightarrow> (Inl (DriverError m), db)
      | None \<Rightarrow>
          (case find (\<lambda>u. doc_id u = doc_id (doc d)) db of
             None \<Rightarrow> (Inl DocumentNotFoundError, db)
           | Some stored \<Rightarrow>
               if pushed d = [] then (Inr (doc d), db)
               else
                 (Inr ((doc d)\<lparr>version := version (doc d) + 1\<rparr>),
                  update_first (\<lambda>u. doc_id u = doc_id (doc d))
                    (\<lambda>u. u\<lparr>favoriteFoods := favoriteFoods u @ pushed d,
                            version := version u + 1\<rparr>) db)))"

text \<open>
  The query helpers chained in \<^verbatim>\<open>search-burritos\<close>. \<^verbatim>\<open>sort({ name: 1 })\<close> orders by
  name ascending, comparing the strings character by character by code (documents with
  the same name, whose order the database leaves open, keep their stored order here);
  \<^verbatim>\<open>limit(n)\<close> keeps the first \<open>n\<close>; \<^verbatim>\<open>select\<close> takes a string of field names
  separated by spaces and leaves out the fields named with a leading minus.
\<close>

definition sort_name_ascending :: "user list \<Rightarrow> user list" where
  "sort_name_ascending us = sort_key name us"

definition limit :: "nat \<Rightarrow> user list \<Rightarrow> user list" where
  "limit n us = take n us"

fun split_spaces :: "string \<Rightarrow> string \<Rightarrow> string list" where
  "split_spaces w [] = (if w = [] then [] else [w])"
| "split_spaces w (c # cs) =
     (if c = CHR '' '' then (if w = [] then [] else [w]) @ split_spaces [] cs
      else split_spaces (w @ [c]) cs)"

definition excluded_fields :: "string \<Rightarrow> string list" where
  "excluded_fields spec =
     map (drop 1) (filter (\<lambda>w. take 1 w = ''-'') (split_spaces [] spec))"

definition select :: "string \<Rightarrow> user \<Rightarrow> (string \<times> json) list" where
  "select spec u = filter (\<lambda>kv. fst kv \<notin> set (excluded_fields spec)) (toObject u)"

text \<open>A count written in decimal, as a template literal renders it.\<close>

function show_nat :: "nat \<Rightarrow> string" where
  "show_nat n =
     (if n < 10 then [char_of (48 + n)]
      else show_nat (n div 10) @ [char_of (48 + n mod 10)])"
  by pat_completeness auto
termination
  by (relation "measure id") auto

declare show_nat.simps [simp del]

subsection \<open>The route handlers\<close>

text \<open>
  One definition per route of \<^verbatim>\<open>Routes/User.routes.js\<close>, in its order. A path
  parameter is a string; a handler that reads an object from the body takes its fields.
  The \<^verbatim>\<open>try\<close> block is the \<open>Inr\<close> branches, the \<^verbatim>\<open>catch\<close> block the \<open>Inl\<close> branch.
\<close>

text \<open>1. \<^verbatim>\<open>GET /users/\<close>\<close>

definition get_users :: "string option \<Rightarrow> collection \<Rightarrow> response \<times> collection" where
  "get_users fault db =
     (case User_find fault Everything db of
        (Inr users, db') \<Rightarrow> (json_response 200 (JArr (map toJSON users)), db')
      | (Inl error, db') \<Rightarrow> (json_response 500 (message ''Server error''), db'))"

text \<open>2. \<^verbatim>\<open>POST /users/\<close>\<close>

definition post_users ::
  "string option \<Rightarrow> objectid \<Rightarrow> user_fields \<Rightarrow> collection \<Rightarrow> response \<times> collection" where
  "post_users fault newid req_body db =
     (case save_new fault newid req_body db of
        (Inr savedUser, db') \<Rightarrow> (json_response 201 (toJSON savedUser), db')
      | (Inl error, db') \<Rightarrow> (json_response 400 (message (error_message error)), db'))"

text \<open>3. \<^verbatim>\<open>PUT /users/:id\<close>\<close>

definition put_users_id ::
  "string option \<Rightarrow> string \<Rightarrow> user_fields \<Rightarrow> collection \<Rightarrow> response \<times> collection" where
  "put_users_id fault ident updatedUserData db =
     (case User_findByIdAndUpdate fault ident updatedUserData
             \<lparr>opt_new = True, opt_runValidators = True\<rparr> db of
        (Inr None, db') \<Rightarrow> (json_response 404 (message ''User not found''), db')
      | (Inr (Some updatedUser), db') \<Rightarrow> (json_response 200 (toJSON updatedUser), db')
      | (Inl error, db') \<Rightarrow>
          (if error_name error = ''CastError'' \<and> error_kind error = Some ''ObjectId''
           then json_response 400 (message ''Invalid User ID format'')
           else json_response 500 (message ''Server error''), db'))"

text \<open>4. \<^verbatim>\<open>DELETE /users/:id\<close>\<close>

definition delete_users_id ::
  "string option \<Rightarrow> string \<Rightarrow> collection \<Rightarrow> response \<times> collection" where
  "delete_users_id fault ident db =
     (case User_findByIdAndDelete fault ident db of
        (Inr None, db') \<Rightarrow> (json_response 404 (message ''User not found''), db')
      | (Inr (Some deletedUser), db') \<Rightarrow>
          (json_response 200
             (JObj [(''message'', JStr ''User deleted successfully''),
                    (''deletedUser'', toJSON deletedUser)]), db')
      | (Inl error, db') \<Rightarrow>
          (if error_name error = ''CastError'' \<and> error_kind error = Some ''ObjectId''
           then json_response 400 (message ''Invalid User ID format'')
           else json_response 500 (message ''Server error''), db'))"

text \<open>5. \<^verbatim>\<open>POST /users/create-one\<close>\<close>

definition post_create_one ::
  "string option \<Rightarrow> objectid \<Rightarrow> user_fields \<Rightarrow> collection \<Rightarrow> response \<times> collection" where
  "post_create_one fault newid req_body db =
     (case save_new fault newid req_body db of
        (Inr savedPerson, db') \<Rightarrow> (json_response 201 (toJSON savedPerson), db')
      | (Inl error, db') \<Rightarrow> (json_response 400 (message (error_message error)), db'))"

text \<open>6. \<^verbatim>\<open>POST /users/create-many\<close>\<close>

fun isArray :: "request_body \<Rightarrow> bool" where
  "isArray (Array xs) = True"
| "isArray (Object f) = False"

fun elements :: "request_body \<Rightarrow> user_fields list" where
  "elements (Array xs) = xs"
| "elements (Object f) = []"

definition post_create_many ::
  "string option \<Rightarrow> (nat \<Rightarrow> objectid) \<Rightarrow> request_body \<Rightarrow> collection
     \<Rightarrow> response \<times> collection" where
  "post_create_many fault newids arrayOfPeople db =
     (if \<not> isArray arrayOfPeople \<or> length (elements arrayOfPeople) = 0
      then (json_response 400
              (message ''Request body must be a non-empty array of user objects.''), db)
      else
        (case User_create fault newids (elements arrayOfPeople) db of
           (Inr createdPeople, db') \<Rightarrow>
             (json_response 201 (JArr (map toJSON createdPeople)), db')
         | (Inl error, db') \<Rightarrow> (json_response 400 (message (error_message error)), db')))"

text \<open>7. \<^verbatim>\<open>GET /users/find-by-name/:name\<close>\<close>

definition get_find_by_name ::
  "string option \<Rightarrow> string \<Rightarrow> collection \<Rightarrow> response \<times> collection" where
  "get_find_by_name fault nm db =
     (case User_find fault (Name_is nm) db of
        (Inr people, db') \<Rightarrow> (json_response 200 (JArr (map toJSON people)), db')
      | (Inl error, db') \<Rightarrow> (json_response 500 (message ''Server error''), db'))"

text \<open>8. \<^verbatim>\<open>GET /users/find-one-food/:food\<close>\<close>

definition get_find_one_food ::
  "string option \<Rightarrow> string \<Rightarrow> collection \<Rightarrow> response \<times> collection" where
  "get_find_one_food fault food db =
     (case User_findOne fault (FavoriteFoods_has food) db of
        (Inr None, db') \<Rightarrow>
          (json_response 404 (message (''No person found with favorite food: '' @ food)), db')
      | (Inr (Some person), db') \<Rightarrow> (json_response 200 (toJSON person), db')
      | (Inl error, db') \<Rightarrow> (json_response 500 (message ''Server error''), db'))"

text \<open>9. \<^verbatim>\<open>GET /users/find-by-id/:id\<close>\<close>

definition get_find_by_id ::
  "string option \<Rightarrow> string \<Rightarrow> collection \<Rightarrow> response \<times> collection" where
  "get_find_by_id fault ident db =
     (case User_findById fault ident db of
        (Inr None, db') \<Rightarrow> (json_response 404 (message ''User not found''), db')
      | (Inr (Some person), db') \<Rightarrow> (json_response 200 (toJSON person), db')
      | (Inl error, db') \<Rightarrow>
          (if error_name error = ''CastError'' \<and> error_kind error = Some ''ObjectId''
           then json_response 400 (message ''Invalid User ID format'')
           else json_response 500 (message ''Server error''), db'))"

text \<open>
  10. \<^verbatim>\<open>PUT /users/classic-update/:id\<close>: two calls to the database, \<^verbatim>\<open>findById\<close> and
  \<^verbatim>\<open>save\<close>, each with its own fault.
\<close>

definition put_classic_update ::
  "string option \<Rightarrow> string option \<Rightarrow> string \<Rightarrow> collection \<Rightarrow> response \<times> collection" where
  "put_classic_update fault1 fault2 ident db =
     (case User_findById fault1 ident db of
        (Inr None, db') \<Rightarrow>
          (json_response 404 (message ''User not found for classic update''), db')
      | (Inr (Some found), db') \<Rightarrow>
          (let person = hydrate found;
               foodToAdd = ''hamburger'';
               person' = (if foodToAdd \<notin> set (favoriteFoods (doc person))
                          then favoriteFoods_push person foodToAdd else person)
           in case document_save fault2 person' db' of
                (Inr updatedPerson, db'') \<Rightarrow> (json_response 200 (toJSON updatedPerson), db'')
              | (Inl error, db'') \<Rightarrow>
                  (if error_name error = ''CastError'' \<and> error_kind error = Some ''ObjectId''
                   then json_response 400 (message ''Invalid User ID format'')
                   else json_response 500 (message ''Server error''), db''))
      | (Inl error, db') \<Rightarrow>
          (if error_name error = ''CastError'' \<and> error_kind error = Some ''ObjectId''
           then json_response 400 (message ''Invalid User ID format'')
           else json_response 500 (message ''Server error''), db'))"

text \<open>11. \<^verbatim>\<open>PUT /users/find-one-and-update/:name\<close>\<close>

definition put_find_one_and_update ::
  "string option \<Rightarrow> string \<Rightarrow> collection \<Rightarrow> response \<times> collection" where
  "put_find_one_and_update fault nm db =
     (let updatedAge = 20 in
      case User_findOneAndUpdate fault (Name_is nm)
             \<lparr>field_name = None, field_age = Some updatedAge, field_favoriteFoods = None\<rparr>
             \<lparr>opt_new = True, opt_runValidators = False\<rparr> db of
        (Inr None, db') \<Rightarrow>
          (json_response 404 (message (''No person found with name: '' @ nm)), db')
      | (Inr (Some updatedPerson), db') \<Rightarrow> (json_response 200 (toJSON updatedPerson), db')
      | (Inl error, db') \<Rightarrow> (json_response 500 (message ''Server error''), db'))"

text \<open>12. \<^verbatim>\<open>DELETE /users/find-by-id-and-remove/:id\<close>\<close>

definition delete_find_by_id_and_remove ::
  "string option \<Rightarrow> string \<Rightarrow> collection \<Rightarrow> response \<times> collection" where
  "delete_find_by_id_and_remove fault ident db =
     (case User_findByIdAndRemove fault ident db of
        (Inr None, db') \<Rightarrow> (json_response 404 (message ''User not found for removal''), db')
      | (Inr (Some removedPerson), db') \<Rightarrow>
          (json_response 200
             (JObj [(''message'', JStr ''User successfully removed''),
                    (''removedPerson'', toJSON removedPerson)]), db')
      | (Inl error, db') \<Rightarrow>
          (if error_name error = ''CastError'' \<and> error_kind error = Some ''ObjectId''
           then json_response 400 (message ''Invalid User ID format'')
           else json_response 500 (message ''Server error''), db'))"

text \<open>13. \<^verbatim>\<open>DELETE /users/delete-many-by-name/:name\<close>\<close>

definition delete_many_by_name ::
  "string option \<Rightarrow> string \<Rightarrow> collection \<Rightarrow> response \<times> collection" where
  \<open>delete_many_by_name fault nm db =
     (case User_deleteMany fault (Name_is nm) db of
        (Inr deletedCount, db') \<Rightarrow>
          (if deletedCount = 0
           then json_response 404
                  (message (''No users found with name: '' @ nm @ '' to delete.''))
           else json_response 200
                  (JObj [(''message'',
                          JStr (show_nat deletedCount @ '' user(s) with name "'' @ nm
                                @ ''" successfully removed.'')),
                         (''deletedCount'', JNum (real deletedCount))]), db')
      | (Inl error, db') \<Rightarrow> (json_response 500 (message ''Server error''), db'))\<close>

text \<open>14. \<^verbatim>\<open>GET /users/search-burritos\<close>\<close>

definition get_search_burritos :: "string option \<Rightarrow> collection \<Rightarrow> response \<times> collection" where
  "get_search_burritos fault db =
     (case User_find fault (FavoriteFoods_has ''burritos'') db of
        (Inr found, db') \<Rightarrow>
          (let people = map (select ''-age -__v'') (limit 2 (sort_name_ascending found))
           in (json_response 200 (JArr (map JObj people)), db'))
      | (Inl error, db') \<Rightarrow> (json_response 500 (message ''Server error''), db'))"

subsection \<open>Reading a response, and the documents of a bulk insert\<close>

text \<open>The value of a key of a JSON object.\<close>

fun json_field :: "string \<Rightarrow> json \<Rightarrow> json option" where
  "json_field k (JObj kvs) = map_of kvs k"
| "json_field k j = None"

text \<open>
  The documents \<^verbatim>\<open>User.create\<close> makes of the elements of an array, the first with the
  identifier \<open>newids i\<close>.
\<close>

fun new_Users :: "(nat \<Rightarrow> objectid) \<Rightarrow> nat \<Rightarrow> user_fields list \<Rightarrow> user list" where
  "new_Users newids i [] = []"
| "new_Users newids i (f # fs) = new_User (newids i) f # new_Users newids (Suc i) fs"

subsection \<open>Sample data\<close>

definition ann :: user where
  "ann = \<lparr>doc_id = 1, name = ''Ann'', age = Some 30, favoriteFoods = [''pizza''], version = 0\<rparr>"

definition bob :: user where
  "bob = \<lparr>doc_id = 2, name = ''Bob'', age = None,
          favoriteFoods = [''hamburger'', ''sushi''], version = 0\<rparr>"

definition mary :: "objectid \<Rightarrow> user" where
  "mary i = \<lparr>doc_id = i, name = ''Mary'', age = Some 35, favoriteFoods = [''salad''], version = 0\<rparr>"

definition ann_fields :: user_fields where
  "ann_fields =
     \<lparr>field_name = Some ''Ann'', field_age = Some 30, field_favoriteFoods = Some [''pizza'']\<rparr>"

definition bob_fields :: user_fields where
  "bob_fields =
     \<lparr>field_name = Some ''Bob'', field_age = None,
      field_favoriteFoods = Some [''hamburger'', ''sushi'']\<rparr>"

definition nameless_fields :: user_fields where
  "nameless_fields = \<lparr>field_name = None, field_age = Some 5, field_favoriteFoods = None\<rparr>"

definition negative_age_fields :: user_fields where
  "negative_age_fields = \<lparr>field_name = None, field_age = Some (- 1), field_favoriteFoods = None\<rparr>"

definition id1 :: string where
  "id1 = ''000000000000000000000001''"

definition id2 :: string where
  "id2 = ''000000000000000000000002''"

text \<open>The identifiers a bulk insert is given in the examples: 1, 2, 3, ...\<close>

definition ids_from_1 :: "nat \<Rightarrow> objectid" where
  "ids_from_1 i = word_of_nat (Suc i)"

section \<open>Properties\<close>

subsection \<open>Identifiers: writing and casting\<close>

lemma hex_value_hex_digit: "d < 16 \<Longrightarrow> hex_value (hex_digit d) = Some d"
  unfolding hex_value_def hex_digit_def Let_def by auto

lemma parse_hex_append:
  "parse_hex acc (xs @ ys) =
     (case parse_hex acc xs of None \<Rightarrow> None | Some a \<Rightarrow> parse_hex a ys)"
  by (induction xs arbitrary: acc) (auto split: option.splits)

lemma length_hex_digits: "length (hex_digits k n) = k"
  by (induction k arbitrary: n) auto

lemma parse_hex_digits:
  "parse_hex acc (hex_digits k n) = Some (16 ^ k * acc + n mod 16 ^ k)"
proof (induction k arbitrary: n acc)
  case 0
  show ?case by simp
next
  case (Suc k)
  have "n mod 16 < 16" by simp
  then have h: "hex_value (hex_digit (n mod 16)) = Some (n mod 16)"
    by (rule hex_value_hex_digit)
  have m: "n mod (16 * 16 ^ k) = 16 * (n div 16 mod 16 ^ k) + n mod 16"
    by (simp add: mod_mult2_eq)
  show ?case
    by (simp add: parse_hex_append Suc.IH h m algebra_simps)
qed

text \<open>An identifier written in a response is cast back to itself.\<close>

lemma castObjectId_toHexString: "castObjectId (toHexString oid) = Some oid"
proof -
  have "unat oid < 2 ^ 96"
    using unsigned_less [of oid] by simp
  then have "unat oid < 16 ^ 24"
    by simp
  then have "parse_hex 0 (hex_digits 24 (unat oid)) = Some (unat oid)"
    by (simp add: parse_hex_digits)
  then show ?thesis
    by (simp add: castObjectId_def toHexString_def length_hex_digits)
qed

lemma castObjectId_id1: "castObjectId id1 = Some 1"
  by (simp add: castObjectId_def id1_def hex_value_def)

lemma castObjectId_id2: "castObjectId id2 = Some 2"
  by (simp add: castObjectId_def id2_def hex_value_def)

lemma castObjectId_abc: "castObjectId ''abc'' = None"
  by (simp add: castObjectId_def)

subsection \<open>The collection\<close>

lemma find_SomeD: "find p xs = Some x \<Longrightarrow> p x"
  by (auto simp: find_Some_iff)

lemma find_append_fresh:
  "\<forall>u \<in> set us. \<not> p u \<Longrightarrow> p v \<Longrightarrow> find p (us @ [v]) = Some v"
  by (induction us) auto

lemma find_id_None:
  "oid \<notin> set (map doc_id db) \<Longrightarrow> find (\<lambda>u. doc_id u = oid) db = None"
  by (induction db) auto

lemma find_remove_first_distinct:
  "distinct (map doc_id db) \<Longrightarrow>
     find (\<lambda>u. doc_id u = oid) (remove_first (\<lambda>u. doc_id u = oid) db) = None"
proof (induction db)
  case Nil
  show ?case by simp
next
  case (Cons a db)
  show ?case
  proof (cases "doc_id a = oid")
    case True
    with Cons.prems have "oid \<notin> set (map doc_id db)" by auto
    then show ?thesis using True by (simp add: find_id_None)
  next
    case False
    with Cons show ?thesis by simp
  qed
qed

lemma find_id_stored: "u \<in> set db \<Longrightarrow> \<exists>v. find (\<lambda>v. doc_id v = doc_id u) db = Some v"
  by (cases "find (\<lambda>v. doc_id v = doc_id u) db") (auto simp: find_None_iff)

lemma matches_Name_is: "matches (Name_is nm) = (\<lambda>u. name u = nm)"
  by (rule ext) simp

lemma filter_name_filter:
  "filter (\<lambda>u. name u = nm) (filter (\<lambda>u. name u \<noteq> nm) db) = []"
  by (induction db) auto

lemma doc_id_new_User: "doc_id (new_User i f) = i"
  by (simp add: new_User_def)

lemma doc_id_apply_update: "doc_id (apply_update f u) = doc_id u"
  by (simp add: apply_update_def)

text \<open>
  Identifiers are unique in a collection: the database refuses a second document with
  the identifier of a stored one, and no operation of the driver breaks this.
\<close>

lemma map_doc_id_update_first:
  "(\<And>u. doc_id (g u) = doc_id u) \<Longrightarrow> map doc_id (update_first p g db) = map doc_id db"
  by (induction db) auto

lemma set_remove_first: "set (remove_first p db) \<subseteq> set db"
  by (induction db) auto

lemma distinct_remove_first:
  "distinct (map doc_id db) \<Longrightarrow> distinct (map doc_id (remove_first p db))"
proof (induction db)
  case Nil
  show ?case by simp
next
  case (Cons a db)
  have "doc_id ` set (remove_first p db) \<subseteq> doc_id ` set db"
    using set_remove_first [of p db] by auto
  with Cons show ?case by auto
qed

lemma distinct_save_new:
  "distinct (map doc_id db) \<Longrightarrow> distinct (map doc_id (snd (save_new fault newid f db)))"
  by (auto simp: save_new_def doc_id_new_User split: option.splits)

lemma distinct_save_each:
  "distinct (map doc_id db) \<Longrightarrow>
     distinct (map doc_id (snd (save_each fault newids i arr db)))"
proof (induction arr arbitrary: i db)
  case Nil
  then show ?case by simp
next
  case (Cons f fs)
  obtain r db1 where s: "save_new fault (newids i) f db = (r, db1)"
    by (cases "save_new fault (newids i) f db")
  with Cons.prems have "distinct (map doc_id db1)"
    using distinct_save_new [of db fault "newids i" f] by simp
  then have "distinct (map doc_id (snd (save_each fault newids (Suc i) fs db1)))"
    by (rule Cons.IH)
  with s show ?case
    by (auto split: prod.splits)
qed

text \<open>Every handler that writes keeps the identifiers of the collection unique.\<close>

lemma unique_ids_create:
  assumes "distinct (map doc_id db)"
  shows "distinct (map doc_id (snd (post_users fault newid f db)))"
    and "distinct (map doc_id (snd (post_create_one fault newid f db)))"
    and "distinct (map doc_id (snd (post_create_many fault newids b db)))"
proof -
  show "distinct (map doc_id (snd (post_users fault newid f db)))"
    using distinct_save_new [OF assms, of fault newid f]
    by (auto simp: post_users_def split: prod.splits sum.splits)
  show "distinct (map doc_id (snd (post_create_one fault newid f db)))"
    using distinct_save_new [OF assms, of fault newid f]
    by (auto simp: post_create_one_def split: prod.splits sum.splits)
  show "distinct (map doc_id (snd (post_create_many fault newids b db)))"
    using distinct_save_each [OF assms, of fault newids 0 "elements b"] assms
    by (auto simp: post_create_many_def User_create_def split: prod.splits sum.splits option.splits)
qed

lemma unique_ids_update:
  assumes "distinct (map doc_id db)"
  shows "distinct (map doc_id (snd (put_users_id fault ident upd db)))"
    and "distinct (map doc_id (snd (put_classic_update fault fault2 ident db)))"
    and "distinct (map doc_id (snd (put_find_one_and_update fault nm db)))"
proof -
  show "distinct (map doc_id (snd (put_users_id fault ident upd db)))"
    using assms
    by (auto simp: put_users_id_def User_findByIdAndUpdate_def map_doc_id_update_first
        doc_id_apply_update split: option.splits)
  show "distinct (map doc_id (snd (put_classic_update fault fault2 ident db)))"
    using assms
    by (auto simp: put_classic_update_def User_findById_def document_save_def Let_def
        map_doc_id_update_first split: option.splits)
  show "distinct (map doc_id (snd (put_find_one_and_update fault nm db)))"
    using assms
    by (auto simp: put_find_one_and_update_def User_findOneAndUpdate_def Let_def
        map_doc_id_update_first doc_id_apply_update split: option.splits)
qed

lemma unique_ids_delete:
  assumes "distinct (map doc_id db)"
  shows "distinct (map doc_id (snd (delete_users_id fault ident db)))"
    and "distinct (map doc_id (snd (delete_find_by_id_and_remove fault ident db)))"
    and "distinct (map doc_id (snd (delete_many_by_name fault nm db)))"
proof -
  show "distinct (map doc_id (snd (delete_users_id fault ident db)))"
    using assms
    by (auto simp: delete_users_id_def User_findByIdAndDelete_def distinct_remove_first
        split: option.splits)
  show "distinct (map doc_id (snd (delete_find_by_id_and_remove fault ident db)))"
    using assms
    by (auto simp: delete_find_by_id_and_remove_def User_findByIdAndRemove_def
        User_findByIdAndDelete_def distinct_remove_first split: option.splits)
  show "distinct (map doc_id (snd (delete_many_by_name fault nm db)))"
    using assms
    by (auto simp: delete_many_by_name_def User_deleteMany_def distinct_map_filter
        split: option.splits)
qed

subsection \<open>Validation\<close>

lemma validate_document_None:
  "validate_document f = None \<Longrightarrow> \<exists>n. field_name f = Some n \<and> n \<noteq> []"
  by (auto simp: validate_document_def validate_name_def
      split: option.splits list.splits if_splits)

lemma save_new_Inr:
  assumes "save_new fault newid f db = (Inr u, db')"
  shows "validate_document f = None \<and> fault = None \<and> newid \<notin> set (map doc_id db)
         \<and> u = new_User newid f \<and> db' = db @ [new_User newid f]"
  using assms by (auto simp: save_new_def split: option.splits if_splits)

text \<open>
  A document without a name, or with a negative age, fails validation; the handlers
  that create a document answer a failed validation with status 400 and its message.
\<close>

lemma validate_document_fails:
  "field_name f = None \<or> (\<exists>a. field_age f = Some a \<and> a < 0) \<Longrightarrow> validate_document f \<noteq> None"
  by (auto simp: validate_document_def validate_name_def validate_age_def
      split: option.splits list.splits)

lemma create_invalid_400:
  assumes "validate_document f = Some e"
  shows "post_users fault newid f db = (json_response 400 (message (error_message e)), db)"
    and "post_create_one fault newid f db = (json_response 400 (message (error_message e)), db)"
  using assms by (simp_all add: post_users_def post_create_one_def save_new_def)

text \<open>
  \<^verbatim>\<open>PUT /users/:id\<close> answers an update that fails validation with status 500, for every
  well-formed identifier, whether a record has it or not.
\<close>

lemma validate_update_negative_age:
  "a < 0 \<Longrightarrow> validate_update (f\<lparr>field_age := Some a\<rparr>) \<noteq> None"
  by (auto simp: validate_update_def validate_age_def split: option.splits list.splits)

lemma put_invalid_500:
  assumes "castObjectId ident = Some oid" and "validate_update upd = Some e"
  shows "put_users_id fault ident upd db = (json_response 500 (message ''Server error''), db)"
proof -
  from assms(2) obtain m where "e = ValidationError m"
    by (auto simp: validate_update_def split: list.splits)
  with assms show ?thesis
    by (simp add: put_users_id_def User_findByIdAndUpdate_def ValidationError_def)
qed

subsection \<open>The chained search\<close>

lemma excluded_fields_age_v: "excluded_fields ''-age -__v'' = [''age'', ''__v'']"
  by (simp add: excluded_fields_def)

lemma select_age_v:
  "select ''-age -__v'' u =
     [(''_id'', JStr (toHexString (doc_id u))), (''name'', JStr (name u)),
      (''favoriteFoods'', JArr (map JStr (favoriteFoods u)))]"
  by (cases "age u") (simp_all add: select_def toObject_def excluded_fields_age_v)

lemma sorted_pair:
  assumes "set ys = {a, b}" and "distinct ys" and "sorted (map f ys)" and "f b < f a"
  shows "ys = [b, a]"
proof -
  from assms(4) have ne: "a \<noteq> b" by auto
  with assms(1,2) have "length ys = 2"
    using distinct_card [of ys] by simp
  then obtain x y where ys: "ys = [x, y]"
    by (cases ys; cases "tl ys") auto
  with assms(1,2,3) have "{x, y} = {a, b}" "x \<noteq> y" "f x \<le> f y" by auto
  with assms(4) have "x = b \<and> y = a"
    by (auto simp: doubleton_eq_iff)
  with ys show ?thesis by simp
qed

text \<open>
  For every collection, while the database answers: the answer is 200 with the
  projection of at most two records, all of them stored records with \<open>burritos\<close> among
  their foods, ordered by name; and no projected record has an \<open>age\<close>.
\<close>

lemma select_no_age: "''age'' \<notin> fst ` set (select ''-age -__v'' u)"
  by (simp add: select_age_v)

lemma search_burritos_200:
  "get_search_burritos None db =
     (json_response 200
        (JArr (map (\<lambda>u. JObj (select ''-age -__v'' u))
           (take 2 (sort_key name (filter (\<lambda>u. ''burritos'' \<in> set (favoriteFoods u)) db))))),
      db)"
proof -
  have "matches (FavoriteFoods_has ''burritos'') = (\<lambda>u. ''burritos'' \<in> set (favoriteFoods u))"
    by (rule ext) simp
  then show ?thesis
    by (simp add: get_search_burritos_def User_find_def sort_name_ascending_def limit_def
        comp_def)
qed

lemma search_burritos_people:
  fixes db :: collection
  defines "people \<equiv> take 2 (sort_key name (filter (\<lambda>u. ''burritos'' \<in> set (favoriteFoods u)) db))"
  shows "length people \<le> 2"
    and "sorted (map name people)"
    and "\<forall>u \<in> set people. u \<in> set db \<and> ''burritos'' \<in> set (favoriteFoods u)"
proof -
  show "length people \<le> 2"
    by (simp add: people_def)
  have "sorted (take 2 (map name (sort_key name (filter (\<lambda>u. ''burritos'' \<in> set (favoriteFoods u)) db))))"
    by (intro sorted_wrt_take) simp
  then show "sorted (map name people)"
    by (simp add: people_def take_map)
  show "\<forall>u \<in> set people. u \<in> set db \<and> ''burritos'' \<in> set (favoriteFoods u)"
    by (auto simp: people_def dest: in_set_takeD)
qed

text \<open>
  Claim C1. \<^verbatim>\<open>GET /users/search-burritos\<close>: when the stored records are A (foods
  \<open>[burritos]\<close>, name \<open>Zeta\<close>), B (foods \<open>[burritos]\<close>, name \<open>Alpha\<close>) and C (foods
  \<open>[tacos]\<close>), in whatever order they are stored and whatever their identifiers, ages
  and version keys, the handler answers 200 with the array \<open>[B, A]\<close>: the records
  with \<open>burritos\<close>, by name ascending, each written with its identifier, name and
  foods only, so without \<open>age\<close>. The collection is unchanged.
\<close>

theorem search_burritos_example:
  fixes A B C :: user
  assumes "name A = ''Zeta''" and "favoriteFoods A = [''burritos'']"
      and "name B = ''Alpha''" and "favoriteFoods B = [''burritos'']"
      and "favoriteFoods C = [''tacos'']"
      and "set db = {A, B, C}" and "distinct db"
  shows "get_search_burritos None db =
           (json_response 200
              (JArr [JObj [(''_id'', JStr (toHexString (doc_id B))), (''name'', JStr ''Alpha''),
                           (''favoriteFoods'', JArr [JStr ''burritos''])],
                     JObj [(''_id'', JStr (toHexString (doc_id A))), (''name'', JStr ''Zeta''),
                           (''favoriteFoods'', JArr [JStr ''burritos''])]]),
            db)"
proof -
  let ?found = "filter (matches (FavoriteFoods_has ''burritos'')) db"
  have s: "set ?found = {A, B}"
    using assms(2,4,5,6) by auto
  have d: "distinct ?found"
    using assms(7) by simp
  have lt: "name B < name A"
    by (simp add: assms(1,3) less_char_def)
  have "sort_key name ?found = [B, A]"
    using s d lt by (intro sorted_pair [where f = name]) simp_all
  then show ?thesis
    by (simp add: get_search_burritos_def User_find_def sort_name_ascending_def limit_def
        select_age_v assms(1,2,3,4))
qed

text \<open>The example with the records stored in the order A, B, C.\<close>

theorem search_burritos_example_witness:
  "get_search_burritos None
     [\<lparr>doc_id = 1, name = ''Zeta'', age = Some 41, favoriteFoods = [''burritos''], version = 0\<rparr>,
      \<lparr>doc_id = 2, name = ''Alpha'', age = Some 27, favoriteFoods = [''burritos''], version = 0\<rparr>,
      \<lparr>doc_id = 3, name = ''Carl'', age = None, favoriteFoods = [''tacos''], version = 0\<rparr>] =
     (json_response 200
        (JArr [JObj [(''_id'', JStr (toHexString 2)), (''name'', JStr ''Alpha''),
                     (''favoriteFoods'', JArr [JStr ''burritos''])],
               JObj [(''_id'', JStr (toHexString 1)), (''name'', JStr ''Zeta''),
                     (''favoriteFoods'', JArr [JStr ''burritos''])]]),
      [\<lparr>doc_id = 1, name = ''Zeta'', age = Some 41, favoriteFoods = [''burritos''], version = 0\<rparr>,
       \<lparr>doc_id = 2, name = ''Alpha'', age = Some 27, favoriteFoods = [''burritos''], version = 0\<rparr>,
       \<lparr>doc_id = 3, name = ''Carl'', age = None, favoriteFoods = [''tacos''], version = 0\<rparr>])"
  using search_burritos_example
    [of "\<lparr>doc_id = 1, name = ''Zeta'', age = Some 41, favoriteFoods = [''burritos''], version = 0\<rparr>"
        "\<lparr>doc_id = 2, name = ''Alpha'', age = Some 27, favoriteFoods = [''burritos''], version = 0\<rparr>"
        "\<lparr>doc_id = 3, name = ''Carl'', age = None, favoriteFoods = [''tacos''], version = 0\<rparr>"
        "[\<lparr>doc_id = 1, name = ''Zeta'', age = Some 41, favoriteFoods = [''burritos''], version = 0\<rparr>,
          \<lparr>doc_id = 2, name = ''Alpha'', age = Some 27, favoriteFoods = [''burritos''], version = 0\<rparr>,
          \<lparr>doc_id = 3, name = ''Carl'', age = None, favoriteFoods = [''tacos''], version = 0\<rparr>]"]
  by simp

subsection \<open>Creating, then fetching by identifier\<close>

text \<open>
  Claim C2. When \<^verbatim>\<open>POST /users/\<close> answers 201, its body carries the identifier of the
  new record under \<^verbatim>\<open>_id\<close>; while the database answers, \<^verbatim>\<open>GET /users/find-by-id/:id\<close>
  with that identifier answers 200 with the record that has the submitted name, the
  submitted age (absent when none was submitted), the submitted foods (the empty list
  when none were submitted) and the assigned identifier.
\<close>

theorem create_then_find_by_id:
  assumes "post_users fault newid f db = (r, db')"
      and "status r = 201"
      and "json_field ''_id'' (body r) = Some (JStr ident)"
  shows "\<exists>n. field_name f = Some n \<and>
           get_find_by_id None ident db' =
             (json_response 200
                (toJSON \<lparr>doc_id = newid, name = n, age = field_age f,
                         favoriteFoods =
                           (case field_favoriteFoods f of None \<Rightarrow> [] | Some fs \<Rightarrow> fs),
                         version = 0\<rparr>), db')"
proof -
  obtain res db1 where s: "save_new fault newid f db = (res, db1)"
    by (cases "save_new fault newid f db")
  show ?thesis
  proof (cases res)
    case (Inl e)
    with s assms(1,2) show ?thesis
      by (auto simp: post_users_def json_response_def)
  next
    case (Inr u)
    with s have k: "validate_document f = None" "newid \<notin> set (map doc_id db)"
      "u = new_User newid f" "db1 = db @ [new_User newid f]"
      using save_new_Inr by blast+
    from s Inr assms(1) have r: "r = json_response 201 (toJSON u)" "db' = db1"
      by (auto simp: post_users_def)
    from k(1) obtain n where n: "field_name f = Some n"
      using validate_document_None by blast
    from r(1) assms(3) have i: "ident = toHexString newid"
      by (simp add: json_response_def toJSON_def toObject_def k(3) new_User_def)
    have f: "find (\<lambda>u. doc_id u = newid) (db @ [new_User newid f]) = Some (new_User newid f)"
      using k(2) by (intro find_append_fresh) (auto simp: new_User_def)
    show ?thesis
      using n f
      by (simp add: get_find_by_id_def User_findById_def i castObjectId_toHexString r(2) k(4)
          new_User_def)
  qed
qed

theorem create_then_find_by_id_witness:
  "post_users None 1 ann_fields [] = (json_response 201 (toJSON ann), [ann])
   \<and> status (json_response 201 (toJSON ann)) = 201
   \<and> json_field ''_id'' (body (json_response 201 (toJSON ann))) = Some (JStr (toHexString 1))
   \<and> get_find_by_id None (toHexString 1) [ann] = (json_response 200 (toJSON ann), [ann])"
proof -
  have p: "post_users None 1 ann_fields [] = (json_response 201 (toJSON ann), [ann])"
    by (simp add: post_users_def save_new_def validate_document_def validate_name_def
        validate_age_def new_User_def ann_fields_def ann_def)
  have s: "status (json_response 201 (toJSON ann)) = 201"
    by (simp add: json_response_def)
  have j: "json_field ''_id'' (body (json_response 201 (toJSON ann))) = Some (JStr (toHexString 1))"
    by (simp add: json_response_def toJSON_def toObject_def ann_def)
  from create_then_find_by_id [OF p s j] p s j show ?thesis
    by (simp add: ann_fields_def ann_def)
qed

subsection \<open>Deleting, then fetching by identifier\<close>

text \<open>
  For every stored record, \<^verbatim>\<open>DELETE /users/:id\<close> with its identifier as written in a
  response answers 200 while the database answers.
\<close>

lemma delete_stored_record_200:
  assumes "u \<in> set db"
  shows "status (fst (delete_users_id None (toHexString (doc_id u)) db)) = 200"
proof -
  from assms obtain v where "find (\<lambda>v. doc_id v = doc_id u) db = Some v"
    using find_id_stored by blast
  then show ?thesis
    by (simp add: delete_users_id_def User_findByIdAndDelete_def castObjectId_toHexString
        json_response_def)
qed

text \<open>
  Claim C3. In a collection (its identifiers unique), after \<^verbatim>\<open>DELETE /users/:id\<close> has
  answered 200 for an identifier, \<^verbatim>\<open>GET /users/find-by-id/:id\<close> with the same identifier
  answers 404 while the database answers.
\<close>

theorem delete_then_find_by_id:
  assumes "distinct (map doc_id db)"
      and "delete_users_id fault ident db = (r, db')"
      and "status r = 200"
  shows "get_find_by_id None ident db' = (json_response 404 (message ''User not found''), db')"
  using assms
  by (auto simp: delete_users_id_def User_findByIdAndDelete_def get_find_by_id_def
      User_findById_def json_response_def find_remove_first_distinct
      split: option.splits if_splits)

theorem delete_then_find_by_id_witness:
  "distinct (map doc_id [ann, bob])
   \<and> delete_users_id None id1 [ann, bob] =
       (json_response 200
          (JObj [(''message'', JStr ''User deleted successfully''),
                 (''deletedUser'', toJSON ann)]),
        [bob])
   \<and> get_find_by_id None id1 [bob] = (json_response 404 (message ''User not found''), [bob])"
proof -
  have d: "distinct (map doc_id [ann, bob])"
    by (simp add: ann_def bob_def)
  have p: "delete_users_id None id1 [ann, bob] =
       (json_response 200
          (JObj [(''message'', JStr ''User deleted successfully''),
                 (''deletedUser'', toJSON ann)]),
        [bob])"
    by (simp add: delete_users_id_def User_findByIdAndDelete_def castObjectId_id1 ann_def bob_def)
  have s: "status (json_response 200
          (JObj [(''message'', JStr ''User deleted successfully''),
                 (''deletedUser'', toJSON ann)])) = 200"
    by (simp add: json_response_def)
  from delete_then_find_by_id [OF d p s] d p show ?thesis
    by simp
qed

subsection \<open>The classic update\<close>

text \<open>
  Claim C4. \<^verbatim>\<open>PUT /users/classic-update/:id\<close> with a well-formed identifier, while the
  database answers: when no record has the identifier the answer is 404 and nothing
  changes; when the record's foods already include \<open>hamburger\<close> the answer is 200 with
  the record and the collection, so its foods, is unchanged; otherwise \<open>hamburger\<close>
  is appended to the foods of the stored record (its version key incremented) and the
  answer is 200 with the record so updated.
\<close>

theorem classic_update:
  assumes "castObjectId ident = Some oid"
  shows "(find (\<lambda>u. doc_id u = oid) db = None \<longrightarrow>
            put_classic_update None None ident db =
              (json_response 404 (message ''User not found for classic update''), db))
       \<and> (\<forall>u. find (\<lambda>u. doc_id u = oid) db = Some u \<and> ''hamburger'' \<in> set (favoriteFoods u) \<longrightarrow>
            put_classic_update None None ident db = (json_response 200 (toJSON u), db))
       \<and> (\<forall>u. find (\<lambda>u. doc_id u = oid) db = Some u \<and> ''hamburger'' \<notin> set (favoriteFoods u) \<longrightarrow>
            put_classic_update None None ident db =
              (json_response 200
                 (toJSON (u\<lparr>favoriteFoods := favoriteFoods u @ [''hamburger''],
                            version := version u + 1\<rparr>)),
               update_first (\<lambda>d. doc_id d = oid)
                 (\<lambda>d. d\<lparr>favoriteFoods := favoriteFoods d @ [''hamburger''],
                         version := version d + 1\<rparr>) db))"
proof (intro conjI allI impI)
  assume "find (\<lambda>u. doc_id u = oid) db = None"
  with assms show "put_classic_update None None ident db =
      (json_response 404 (message ''User not found for classic update''), db)"
    by (simp add: put_classic_update_def User_findById_def)
next
  fix u
  assume a: "find (\<lambda>u. doc_id u = oid) db = Some u \<and> ''hamburger'' \<in> set (favoriteFoods u)"
  then have "doc_id u = oid"
    by (auto dest: find_SomeD)
  with a assms show "put_classic_update None None ident db = (json_response 200 (toJSON u), db)"
    by (simp add: put_classic_update_def User_findById_def document_save_def hydrate_def Let_def)
next
  fix u
  assume a: "find (\<lambda>u. doc_id u = oid) db = Some u \<and> ''hamburger'' \<notin> set (favoriteFoods u)"
  then have "doc_id u = oid"
    by (auto dest: find_SomeD)
  with a assms show "put_classic_update None None ident db =
      (json_response 200
         (toJSON (u\<lparr>favoriteFoods := favoriteFoods u @ [''hamburger''],
                    version := version u + 1\<rparr>)),
       update_first (\<lambda>d. doc_id d = oid)
         (\<lambda>d. d\<lparr>favoriteFoods := favoriteFoods d @ [''hamburger''],
                 version := version d + 1\<rparr>) db)"
    by (simp add: put_classic_update_def User_findById_def document_save_def hydrate_def
        favoriteFoods_push_def Let_def)
qed

theorem classic_update_witness:
  "castObjectId id2 = Some 2
   \<and> put_classic_update None None id2 [ann] =
       (json_response 404 (message ''User not found for classic update''), [ann])
   \<and> put_classic_update None None id2 [ann, bob] = (json_response 200 (toJSON bob), [ann, bob])
   \<and> castObjectId id1 = Some 1
   \<and> put_classic_update None None id1 [ann, bob] =
       (json_response 200
          (toJSON (ann\<lparr>favoriteFoods := [''pizza'', ''hamburger''], version := 1\<rparr>)),
        [ann\<lparr>favoriteFoods := [''pizza'', ''hamburger''], version := 1\<rparr>, bob])"
proof -
  have f1: "find (\<lambda>u. doc_id u = 2) [ann] = None"
    by (simp add: ann_def)
  have f2: "find (\<lambda>u. doc_id u = 2) [ann, bob] = Some bob
              \<and> ''hamburger'' \<in> set (favoriteFoods bob)"
    by (simp add: ann_def bob_def)
  have f3: "find (\<lambda>u. doc_id u = 1) [ann, bob] = Some ann
              \<and> ''hamburger'' \<notin> set (favoriteFoods ann)"
    by (simp add: ann_def bob_def)
  from classic_update [OF castObjectId_id2, of "[ann]"] f1
  have a: "put_classic_update None None id2 [ann] =
       (json_response 404 (message ''User not found for classic update''), [ann])"
    by simp
  from classic_update [OF castObjectId_id2, of "[ann, bob]"] f2
  have b: "put_classic_update None None id2 [ann, bob] =
       (json_response 200 (toJSON bob), [ann, bob])"
    by blast
  from classic_update [OF castObjectId_id1, of "[ann, bob]"] f3
  have "put_classic_update None None id1 [ann, bob] =
          (json_response 200
             (toJSON (ann\<lparr>favoriteFoods := favoriteFoods ann @ [''hamburger''],
                          version := version ann + 1\<rparr>)),
           update_first (\<lambda>d. doc_id d = 1)
             (\<lambda>d. d\<lparr>favoriteFoods := favoriteFoods d @ [''hamburger''],
                     version := version d + 1\<rparr>) [ann, bob])"
    by blast
  then have c: "put_classic_update None None id1 [ann, bob] =
       (json_response 200
          (toJSON (ann\<lparr>favoriteFoods := [''pizza'', ''hamburger''], version := 1\<rparr>)),
        [ann\<lparr>favoriteFoods := [''pizza'', ''hamburger''], version := 1\<rparr>, bob])"
    by (simp add: ann_def)
  from a b c castObjectId_id1 castObjectId_id2 show ?thesis
    by simp
qed

subsection \<open>Validation failures\<close>

text \<open>
  Claim C5. A validation failure is to be answered with status 400 and the message of
  the validation, also by \<^verbatim>\<open>PUT /users/:id\<close>. The handlers that create a document do
  so (\<open>create_invalid_400\<close>), but \<^verbatim>\<open>PUT /users/:id\<close> does not: its \<^verbatim>\<open>catch\<close> block tells
  only the \<^verbatim>\<open>CastError\<close> of an identifier apart, so the update of a stored record to the
  age \<open>-1\<close>, which the validator of the update rejects, is answered with status 500
  and the message \<open>Server error\<close>.
\<close>

theorem put_negative_age_500:
  "validate_update negative_age_fields \<noteq> None
   \<and> put_users_id None id1 negative_age_fields [ann] =
       (json_response 500 (message ''Server error''), [ann])"
  by (simp add: put_users_id_def User_findByIdAndUpdate_def validate_update_def validate_age_def
      ValidationError_def castObjectId_id1 negative_age_fields_def)

subsection \<open>The bulk insert\<close>

lemma save_each_valid:
  assumes "list_all (\<lambda>f. validate_document f = None) arr"
      and "distinct (map newids [i..<i + length arr])"
      and "set (map newids [i..<i + length arr]) \<inter> set (map doc_id db) = {}"
  shows "save_each None newids i arr db =
           (map Inr (new_Users newids i arr), db @ new_Users newids i arr)"
  using assms
proof (induction arr arbitrary: i db)
  case Nil
  show ?case by simp
next
  case (Cons f fs)
  have r: "[i..<i + length (f # fs)] = i # [Suc i..<Suc i + length fs]"
    by (subst upt_rec) simp
  note p2 = Cons.prems(2) [unfolded r]
  note p3 = Cons.prems(3) [unfolded r]
  from p3 have fresh: "newids i \<notin> set (map doc_id db)"
    by auto
  from Cons.prems(1) have v: "validate_document f = None"
    by simp
  have s: "save_new None (newids i) f db =
             (Inr (new_User (newids i) f), db @ [new_User (newids i) f])"
    using fresh v by (simp add: save_new_def)
  have d: "distinct (map newids [Suc i..<Suc i + length fs])"
    using p2 by simp
  have n: "newids i \<notin> set (map newids [Suc i..<Suc i + length fs])"
    using p2 by simp
  have e: "set (map newids [Suc i..<Suc i + length fs])
             \<inter> set (map doc_id (db @ [new_User (newids i) f])) = {}"
    using p3 n by (auto simp: doc_id_new_User)
  have "save_each None newids (Suc i) fs (db @ [new_User (newids i) f]) =
          (map Inr (new_Users newids (Suc i) fs),
           (db @ [new_User (newids i) f]) @ new_Users newids (Suc i) fs)"
    using Cons.prems(1) d e by (intro Cons.IH) simp_all
  with s show ?case by simp
qed

lemma first_error_map_Inr: "first_error (map Inr us) = None"
  by (induction us) auto

lemma saved_docs_map_Inr: "saved_docs (map Inr us) = us"
  by (induction us) auto

lemma save_each_invalid:
  "\<not> list_all (\<lambda>f. validate_document f = None) arr \<Longrightarrow>
     first_error (fst (save_each fault newids i arr db)) \<noteq> None"
proof (induction arr arbitrary: i db)
  case Nil
  then show ?case by simp
next
  case (Cons f fs)
  obtain r db1 where s: "save_new fault (newids i) f db = (r, db1)"
    by (cases "save_new fault (newids i) f db")
  obtain rs db2 where t: "save_each fault newids (Suc i) fs db1 = (rs, db2)"
    by (cases "save_each fault newids (Suc i) fs db1")
  show ?case
  proof (cases r)
    case (Inl e)
    with s t show ?thesis by simp
  next
    case (Inr u)
    with s have "validate_document f = None"
      using save_new_Inr by blast
    with Cons.prems have "\<not> list_all (\<lambda>f. validate_document f = None) fs"
      by simp
    then have "first_error (fst (save_each fault newids (Suc i) fs db1)) \<noteq> None"
      by (rule Cons.IH)
    with s t Inr show ?thesis by simp
  qed
qed

text \<open>
  Claim C6, as amended. \<^verbatim>\<open>POST /users/create-many\<close> answers 400 and inserts nothing
  when the body is not an array or is an empty array. For a non-empty array whose
  records all pass the validation of the schema, the database answering and the new
  identifiers being fresh, it appends the records and answers 201 with the array of the
  created records. For an array with a record that fails the validation it answers 400.
\<close>

theorem create_many:
  "(\<not> isArray b \<or> elements b = [] \<longrightarrow>
      post_create_many fault newids b db =
        (json_response 400
           (message ''Request body must be a non-empty array of user objects.''), db))
 \<and> (arr \<noteq> [] \<and> list_all (\<lambda>f. validate_document f = None) arr
      \<and> distinct (map newids [0..<length arr])
      \<and> set (map newids [0..<length arr]) \<inter> set (map doc_id db) = {} \<longrightarrow>
      post_create_many None newids (Array arr) db =
        (json_response 201 (JArr (map toJSON (new_Users newids 0 arr))),
         db @ new_Users newids 0 arr))
 \<and> (\<not> list_all (\<lambda>f. validate_document f = None) arr \<longrightarrow>
      status (fst (post_create_many fault newids (Array arr) db)) = 400)"
proof (intro conjI impI)
  assume "\<not> isArray b \<or> elements b = []"
  then show "post_create_many fault newids b db =
        (json_response 400
           (message ''Request body must be a non-empty array of user objects.''), db)"
    by (auto simp: post_create_many_def)
next
  assume a: "arr \<noteq> [] \<and> list_all (\<lambda>f. validate_document f = None) arr
      \<and> distinct (map newids [0..<length arr])
      \<and> set (map newids [0..<length arr]) \<inter> set (map doc_id db) = {}"
  then have "save_each None newids 0 arr db =
           (map Inr (new_Users newids 0 arr), db @ new_Users newids 0 arr)"
    by (intro save_each_valid) simp_all
  with a show "post_create_many None newids (Array arr) db =
        (json_response 201 (JArr (map toJSON (new_Users newids 0 arr))),
         db @ new_Users newids 0 arr)"
    by (simp add: post_create_many_def User_create_def first_error_map_Inr saved_docs_map_Inr)
next
  assume a: "\<not> list_all (\<lambda>f. validate_document f = None) arr"
  then have ne: "arr \<noteq> []"
    by auto
  obtain rs db1 where s: "save_each fault newids 0 arr db = (rs, db1)"
    by (cases "save_each fault newids 0 arr db")
  from a have "first_error (fst (save_each fault newids 0 arr db)) \<noteq> None"
    by (rule save_each_invalid)
  with s obtain e where "first_error rs = Some e"
    by auto
  with s ne show "status (fst (post_create_many fault newids (Array arr) db)) = 400"
    by (simp add: post_create_many_def User_create_def json_response_def)
qed

theorem create_many_witness:
  "post_create_many None ids_from_1 (Object ann_fields) [ann] =
     (json_response 400
        (message ''Request body must be a non-empty array of user objects.''), [ann])
   \<and> post_create_many None ids_from_1 (Array []) [ann] =
     (json_response 400
        (message ''Request body must be a non-empty array of user objects.''), [ann])
   \<and> post_create_many None ids_from_1 (Array [ann_fields, bob_fields]) [] =
     (json_response 201 (JArr [toJSON ann, toJSON bob]), [ann, bob])
   \<and> status (fst (post_create_many None ids_from_1 (Array [ann_fields, nameless_fields]) [])) = 400"
proof -
  have v: "validate_document ann_fields = None" "validate_document bob_fields = None"
    "validate_document nameless_fields \<noteq> None"
    by (simp_all add: validate_document_def validate_name_def validate_age_def ann_fields_def
        bob_fields_def nameless_fields_def)
  have n: "new_Users ids_from_1 0 [ann_fields, bob_fields] = [ann, bob]"
    by (simp add: new_User_def ids_from_1_def ann_fields_def bob_fields_def ann_def bob_def)
  from create_many [where b = "Object ann_fields" and fault = None and newids = ids_from_1
      and db = "[ann]"]
  have a: "post_create_many None ids_from_1 (Object ann_fields) [ann] =
     (json_response 400
        (message ''Request body must be a non-empty array of user objects.''), [ann])"
    by simp
  from create_many [where b = "Array []" and fault = None and newids = ids_from_1
      and db = "[ann]"]
  have b: "post_create_many None ids_from_1 (Array []) [ann] =
     (json_response 400
        (message ''Request body must be a non-empty array of user objects.''), [ann])"
    by simp
  have h: "[ann_fields, bob_fields] \<noteq> []
      \<and> list_all (\<lambda>f. validate_document f = None) [ann_fields, bob_fields]
      \<and> distinct (map ids_from_1 [0..<length [ann_fields, bob_fields]])
      \<and> set (map ids_from_1 [0..<length [ann_fields, bob_fields]]) \<inter> set (map doc_id []) = {}"
    by (simp add: v ids_from_1_def)
  from create_many [where b = "Array []" and fault = None and arr = "[ann_fields, bob_fields]"
      and newids = ids_from_1 and db = "[]"] h
  have "post_create_many None ids_from_1 (Array [ann_fields, bob_fields]) [] =
     (json_response 201 (JArr (map toJSON (new_Users ids_from_1 0 [ann_fields, bob_fields]))),
      [] @ new_Users ids_from_1 0 [ann_fields, bob_fields])"
    by blast
  then have c: "post_create_many None ids_from_1 (Array [ann_fields, bob_fields]) [] =
     (json_response 201 (JArr [toJSON ann, toJSON bob]), [ann, bob])"
    by (simp only: n list.map append_Nil)
  from create_many [where arr = "[ann_fields, nameless_fields]" and fault = None
      and newids = ids_from_1 and db = "[]"] v
  have d: "status (fst (post_create_many None ids_from_1
              (Array [ann_fields, nameless_fields]) [])) = 400"
    by simp
  from a b c d show ?thesis
    by simp
qed

text \<open>
  A non-empty array that is not inserted: its only record has no name, the answer is
  400 with the message of the validation, not 201.
\<close>

theorem create_many_counterexample:
  "isArray (Array [nameless_fields])
   \<and> elements (Array [nameless_fields]) \<noteq> []
   \<and> post_create_many None ids_from_1 (Array [nameless_fields]) [] =
       (json_response 400
          (message ''User validation failed: name: Path `name` is required.''), [])
   \<and> status (fst (post_create_many None ids_from_1 (Array [nameless_fields]) [])) \<noteq> 201"
  by (simp add: post_create_many_def User_create_def save_new_def validate_document_def
      validate_name_def validate_age_def nameless_fields_def ValidationError_def
      json_response_def)

subsection \<open>Malformed identifiers\<close>

text \<open>
  Claim C7. A path parameter that the driver cannot cast to an identifier is answered
  with status 400 and the message \<open>Invalid User ID format\<close>, the collection unchanged,
  by each of the five handlers that take an \<^verbatim>\<open>:id\<close>: whatever the body, and whether the
  database answers or not.
\<close>

theorem malformed_id:
  assumes "castObjectId ident = None"
  shows "put_users_id fault ident upd db =
           (json_response 400 (message ''Invalid User ID format''), db)
       \<and> delete_users_id fault ident db =
           (json_response 400 (message ''Invalid User ID format''), db)
       \<and> get_find_by_id fault ident db =
           (json_response 400 (message ''Invalid User ID format''), db)
       \<and> put_classic_update fault fault2 ident db =
           (json_response 400 (message ''Invalid User ID format''), db)
       \<and> delete_find_by_id_and_remove fault ident db =
           (json_response 400 (message ''Invalid User ID format''), db)"
  using assms
  by (simp add: put_users_id_def delete_users_id_def get_find_by_id_def put_classic_update_def
      delete_find_by_id_and_remove_def User_findByIdAndUpdate_def User_findByIdAndDelete_def
      User_findByIdAndRemove_def User_findById_def CastError_ObjectId_def)

theorem malformed_id_witness:
  "castObjectId ''abc'' = None
   \<and> put_users_id (Some ''connection lost'') ''abc'' negative_age_fields [ann] =
       (json_response 400 (message ''Invalid User ID format''), [ann])
   \<and> delete_users_id (Some ''connection lost'') ''abc'' [ann] =
       (json_response 400 (message ''Invalid User ID format''), [ann])
   \<and> get_find_by_id (Some ''connection lost'') ''abc'' [ann] =
       (json_response 400 (message ''Invalid User ID format''), [ann])
   \<and> put_classic_update (Some ''connection lost'') None ''abc'' [ann] =
       (json_response 400 (message ''Invalid User ID format''), [ann])
   \<and> delete_find_by_id_and_remove (Some ''connection lost'') ''abc'' [ann] =
       (json_response 400 (message ''Invalid User ID format''), [ann])"
  using malformed_id [OF castObjectId_abc, of "Some ''connection lost''" negative_age_fields
      "[ann]" None] castObjectId_abc
  by simp

subsection \<open>Deleting by name\<close>

lemma show_nat_3: "show_nat (Suc (Suc (Suc 0))) = ''3''"
proof -
  have "show_nat 3 = ''3''"
    by code_simp
  then show ?thesis
    by (simp add: numeral_3_eq_3)
qed

text \<open>
  Claim C8. \<^verbatim>\<open>DELETE /users/delete-many-by-name/:name\<close>, while the database answers:
  when \<open>n > 0\<close> records have the name it removes exactly them and answers 200 with
  \<^verbatim>\<open>deletedCount\<close> \<open>n\<close>, and \<^verbatim>\<open>GET /users/find-by-name/:name\<close> for that name then
  answers 200 with the empty array; when no record has the name it answers 404 and
  the collection is unchanged.
\<close>

theorem delete_many_then_find_by_name:
  \<open>(0 < length (filter (\<lambda>u. name u = nm) db) \<longrightarrow>
      delete_many_by_name None nm db =
        (json_response 200
           (JObj [(''message'',
                   JStr (show_nat (length (filter (\<lambda>u. name u = nm) db))
                         @ '' user(s) with name "'' @ nm @ ''" successfully removed.'')),
                  (''deletedCount'', JNum (real (length (filter (\<lambda>u. name u = nm) db))))]),
         filter (\<lambda>u. name u \<noteq> nm) db)
      \<and> get_find_by_name None nm (filter (\<lambda>u. name u \<noteq> nm) db) =
          (json_response 200 (JArr []), filter (\<lambda>u. name u \<noteq> nm) db))
   \<and> (length (filter (\<lambda>u. name u = nm) db) = 0 \<longrightarrow>
        delete_many_by_name None nm db =
          (json_response 404 (message (''No users found with name: '' @ nm @ '' to delete.'')),
           db))\<close>
proof (intro conjI impI)
  assume "0 < length (filter (\<lambda>u. name u = nm) db)"
  then show \<open>delete_many_by_name None nm db =
        (json_response 200
           (JObj [(''message'',
                   JStr (show_nat (length (filter (\<lambda>u. name u = nm) db))
                         @ '' user(s) with name "'' @ nm @ ''" successfully removed.'')),
                  (''deletedCount'', JNum (real (length (filter (\<lambda>u. name u = nm) db))))]),
         filter (\<lambda>u. name u \<noteq> nm) db)\<close>
    by (simp add: delete_many_by_name_def User_deleteMany_def matches_Name_is)
next
  show "get_find_by_name None nm (filter (\<lambda>u. name u \<noteq> nm) db) =
          (json_response 200 (JArr []), filter (\<lambda>u. name u \<noteq> nm) db)"
    by (simp add: get_find_by_name_def User_find_def matches_Name_is filter_name_filter)
next
  assume "length (filter (\<lambda>u. name u = nm) db) = 0"
  then have e: "filter (\<lambda>u. name u = nm) db = []"
    by simp
  then have "\<forall>u \<in> set db. name u \<noteq> nm"
    by (simp add: filter_empty_conv)
  then have "filter (\<lambda>u. name u \<noteq> nm) db = db"
    by (simp add: filter_id_conv)
  with e show "delete_many_by_name None nm db =
          (json_response 404 (message (''No users found with name: '' @ nm @ '' to delete.'')),
           db)"
    by (simp add: delete_many_by_name_def User_deleteMany_def matches_Name_is)
qed

theorem delete_many_then_find_by_name_witness:
  \<open>length (filter (\<lambda>u. name u = ''Mary'') [mary 3, ann, mary 4, bob, mary 5]) = 3
   \<and> delete_many_by_name None ''Mary'' [mary 3, ann, mary 4, bob, mary 5] =
       (json_response 200
          (JObj [(''message'', JStr ''3 user(s) with name "Mary" successfully removed.''),
                 (''deletedCount'', JNum 3)]),
        [ann, bob])
   \<and> get_find_by_name None ''Mary'' [ann, bob] = (json_response 200 (JArr []), [ann, bob])
   \<and> length (filter (\<lambda>u. name u = ''Mary'') [ann, bob]) = 0
   \<and> delete_many_by_name None ''Mary'' [ann, bob] =
       (json_response 404 (message ''No users found with name: Mary to delete.''), [ann, bob])\<close>
  using delete_many_then_find_by_name [of "''Mary''" "[mary 3, ann, mary 4, bob, mary 5]"]
    delete_many_then_find_by_name [of "''Mary''" "[ann, bob]"]
  by (simp add: mary_def ann_def bob_def show_nat_3)

subsection \<open>The body of a deletion\<close>

text \<open>
  Claim C9, as amended. When the record with a well-formed identifier exists and the
  database answers, \<^verbatim>\<open>DELETE /users/:id\<close> and
  \<^verbatim>\<open>DELETE /users/find-by-id-and-remove/:id\<close> remove it and answer 200 with an object
  that holds a message and the deleted record, under the key \<^verbatim>\<open>deletedUser\<close> for the
  first and \<^verbatim>\<open>removedPerson\<close> for the second.
\<close>

theorem delete_returns_envelope:
  assumes "castObjectId ident = Some oid"
      and "find (\<lambda>u. doc_id u = oid) db = Some u"
  shows "delete_users_id None ident db =
           (json_response 200
              (JObj [(''message'', JStr ''User deleted successfully''),
                     (''deletedUser'', toJSON u)]),
            remove_first (\<lambda>u. doc_id u = oid) db)
       \<and> delete_find_by_id_and_remove None ident db =
           (json_response 200
              (JObj [(''message'', JStr ''User successfully removed''),
                     (''removedPerson'', toJSON u)]),
            remove_first (\<lambda>u. doc_id u = oid) db)"
  using assms
  by (simp add: delete_users_id_def delete_find_by_id_and_remove_def User_findByIdAndRemove_def
      User_findByIdAndDelete_def)

theorem delete_returns_envelope_witness:
  "castObjectId id2 = Some 2
   \<and> find (\<lambda>u. doc_id u = 2) [ann, bob] = Some bob
   \<and> delete_users_id None id2 [ann, bob] =
       (json_response 200
          (JObj [(''message'', JStr ''User deleted successfully''),
                 (''deletedUser'', toJSON bob)]),
        [ann])
   \<and> delete_find_by_id_and_remove None id2 [ann, bob] =
       (json_response 200
          (JObj [(''message'', JStr ''User successfully removed''),
                 (''removedPerson'', toJSON bob)]),
        [ann])"
proof -
  have f: "find (\<lambda>u. doc_id u = 2) [ann, bob] = Some bob"
    by (simp add: ann_def bob_def)
  have r: "remove_first (\<lambda>u. doc_id u = 2) [ann, bob] = [ann]"
    by (simp add: ann_def bob_def)
  from delete_returns_envelope [OF castObjectId_id2 f] castObjectId_id2 f show ?thesis
    by (simp only: r simp_thms)
qed

text \<open>
  The body of a successful deletion is not the deleted record: it is the object around
  it.
\<close>

theorem delete_body_counterexample:
  "status (fst (delete_users_id None id1 [ann])) = 200
   \<and> body (fst (delete_users_id None id1 [ann])) \<noteq> toJSON ann
   \<and> status (fst (delete_find_by_id_and_remove None id1 [ann])) = 200
   \<and> body (fst (delete_find_by_id_and_remove None id1 [ann])) \<noteq> toJSON ann"
  by (simp add: delete_users_id_def delete_find_by_id_and_remove_def User_findByIdAndRemove_def
      User_findByIdAndDelete_def castObjectId_id1 ann_def json_response_def toJSON_def
      toObject_def)

subsection \<open>Reading handlers leave the collection alone\<close>

text \<open>
  Claim C10. Each of the five \<^verbatim>\<open>GET\<close> handlers returns the collection it was given:
  for every parameter, every collection and whether the database answers or not, so
  for every status it answers with.
\<close>

theorem get_handlers_frame:
  "snd (get_users fault db) = db
   \<and> snd (get_find_by_name fault nm db) = db
   \<and> snd (get_find_one_food fault food db) = db
   \<and> snd (get_find_by_id fault ident db) = db
   \<and> snd (get_search_burritos fault db) = db"
  by (auto simp: get_users_def get_find_by_name_def get_find_one_food_def get_find_by_id_def
      get_search_burritos_def User_find_def User_findOne_def User_findById_def Let_def
      split: option.splits)

end
